theory Spec2Isabelle
  imports Complex_Main
begin

section \<open>Navigation state of the volumetric viewer (navigation\_state.ts)\<close>

text \<open>
  The module keeps the camera of the viewer: a voxel size, a position, an orientation
  quaternion and a zoom factor, each with a \<open>changed\<close> signal, and restores them from
  JSON-like values. The classes are embedded as records, their methods as functions from
  the object before the call to the object after it; an exception that leaves a method
  is the \<open>Inl\<close> branch of its result.
\<close>

subsection \<open>JavaScript numbers\<close>

text \<open>
  A JavaScript number is NaN, one of the two infinities, or a finite value. The control
  flow of the module depends on NaN (the "unset" zoom factor) and on finiteness (the
  vector parser), so both are explicit. Finite values are idealised as reals: rounding
  to 32 or 64 bits, overflow to infinity and the sign of zero are outside this model
  (the one zero behaves as \<open>+0\<close>).
\<close>

datatype number = NaN | PosInf | NegInf | Num real

instantiation number :: "{zero, one, plus, uminus, minus, times, inverse, abs, sgn, ord}"
begin

definition zero_number :: number where
  "zero_number = Num 0"

definition one_number :: number where
  "one_number = Num 1"

fun plus_number :: "number \<Rightarrow> number \<Rightarrow> number" where
  "plus_number NaN _ = NaN"
| "plus_number _ NaN = NaN"
| "plus_number PosInf NegInf = NaN"
| "plus_number NegInf PosInf = NaN"
| "plus_number PosInf _ = PosInf"
| "plus_number _ PosInf = PosInf"
| "plus_number NegInf _ = NegInf"
| "plus_number _ NegInf = NegInf"
| "plus_number (Num a) (Num b) = Num (a + b)"

fun uminus_number :: "number \<Rightarrow> number" where
  "uminus_number NaN = NaN"
| "uminus_number PosInf = NegInf"
| "uminus_number NegInf = PosInf"
| "uminus_number (Num a) = Num (- a)"

definition minus_number :: "number \<Rightarrow> number \<Rightarrow> number" where
  "minus_number (a :: number) b = a + (- b)"

fun times_number :: "number \<Rightarrow> number \<Rightarrow> number" where
  "times_number NaN _ = NaN"
| "times_number _ NaN = NaN"
| "times_number (Num a) (Num b) = Num (a * b)"
| "times_number (Num a) PosInf = (if a = 0 then NaN else if 0 < a then PosInf else NegInf)"
| "times_number (Num a) NegInf = (if a = 0 then NaN else if 0 < a then NegInf else PosInf)"
| "times_number PosInf (Num b) = (if b = 0 then NaN else if 0 < b then PosInf else NegInf)"
| "times_number NegInf (Num b) = (if b = 0 then NaN else if 0 < b then NegInf else PosInf)"
| "times_number PosInf PosInf = PosInf"
| "times_number PosInf NegInf = NegInf"
| "times_number NegInf PosInf = NegInf"
| "times_number NegInf NegInf = PosInf"

fun divide_number :: "number \<Rightarrow> number \<Rightarrow> number" where
  "divide_number NaN _ = NaN"
| "divide_number _ NaN = NaN"
| "divide_number (Num a) (Num b) =
     (if b = 0 then (if a = 0 then NaN else if 0 < a then PosInf else NegInf)
      else Num (a / b))"
| "divide_number (Num a) _ = Num 0"
| "divide_number PosInf (Num b) = (if 0 \<le> b then PosInf else NegInf)"
| "divide_number NegInf (Num b) = (if 0 \<le> b then NegInf else PosInf)"
| "divide_number _ _ = NaN"

fun inverse_number :: "number \<Rightarrow> number" where
  "inverse_number NaN = NaN"
| "inverse_number (Num b) = (if b = 0 then PosInf else Num (1 / b))"
| "inverse_number _ = Num 0"

fun abs_number :: "number \<Rightarrow> number" where
  "abs_number NaN = NaN"
| "abs_number PosInf = PosInf"
| "abs_number NegInf = PosInf"
| "abs_number (Num a) = Num \<bar>a\<bar>"

fun sgn_number :: "number \<Rightarrow> number" where
  "sgn_number NaN = NaN"
| "sgn_number PosInf = Num 1"
| "sgn_number NegInf = Num (- 1)"
| "sgn_number (Num a) = Num (sgn a)"

fun less_number :: "number \<Rightarrow> number \<Rightarrow> bool" where
  "less_number NaN _ = False"
| "less_number _ NaN = False"
| "less_number (Num a) (Num b) = (a < b)"
| "less_number NegInf NegInf = False"
| "less_number NegInf _ = True"
| "less_number _ NegInf = False"
| "less_number PosInf _ = False"
| "less_number _ PosInf = True"

definition less_eq_number :: "number \<Rightarrow> number \<Rightarrow> bool" where
  "less_eq_number (a :: number) b = (a < b \<or> (a \<noteq> NaN \<and> a = b))"

instance ..

end

text \<open>\<open>Number.isNaN\<close>, \<open>Number.isFinite\<close>, \<open>===\<close> on numbers, \<open>Math.sqrt\<close> and
  \<open>Math.min\<close> (variadic: NaN as soon as one argument is NaN, \<open>+Infinity\<close> without
  arguments).\<close>

fun isNaN :: "number \<Rightarrow> bool" where
  "isNaN NaN = True"
| "isNaN _ = False"

fun isFinite :: "number \<Rightarrow> bool" where
  "isFinite (Num _) = True"
| "isFinite _ = False"

definition strict_eq :: "number \<Rightarrow> number \<Rightarrow> bool" where
  "strict_eq a b = (\<not> isNaN a \<and> \<not> isNaN b \<and> a = b)"


definition min2 :: "number \<Rightarrow> number \<Rightarrow> number" where
  "min2 a b = (if isNaN a \<or> isNaN b then NaN else if b < a then b else a)"

definition Math_min :: "number list \<Rightarrow> number" where
  "Math_min xs = foldl min2 PosInf xs"

subsection \<open>Vectors, quaternions and matrices\<close>

text \<open>
  \<open>Vec3\<close>, \<open>Quat\<close> and \<open>Mat3\<close> are typed arrays of 3, 4 and 9 numbers. The source indexes
  vectors and quaternions by constants, so they are tuples; the matrix of \<open>snap\<close> is
  indexed by the loop variables (\<open>mat[i * 3 + j]\<close>), so it is a list, always of the
  nine entries that \<open>mat3.fromQuat\<close> writes.
\<close>

type_synonym Vec3 = "number \<times> number \<times> number"
type_synonym Quat = "number \<times> number \<times> number \<times> number"

text \<open>Modelled from the spec: \<open>vec3.create\<close>, \<open>vec3.add\<close>, \<open>vec3.multiply\<close> and
  \<open>vec3.divide\<close> of the vector library behind \<open>neuroglancer/util/geom\<close>, which is not
  among the sources: the zero vector and the element-wise operations.\<close>

definition vec3_create :: Vec3 where
  "vec3_create = (Num 0, Num 0, Num 0)"

fun vec3_add :: "Vec3 \<Rightarrow> Vec3 \<Rightarrow> Vec3" where
  "vec3_add (a0, a1, a2) (b0, b1, b2) = (a0 + b0, a1 + b1, a2 + b2)"

fun vec3_multiply :: "Vec3 \<Rightarrow> Vec3 \<Rightarrow> Vec3" where
  "vec3_multiply (a0, a1, a2) (b0, b1, b2) = (a0 * b0, a1 * b1, a2 * b2)"

fun vec3_divide :: "Vec3 \<Rightarrow> Vec3 \<Rightarrow> Vec3" where
  "vec3_divide (a0, a1, a2) (b0, b1, b2) = (a0 / b0, a1 / b1, a2 / b2)"

text \<open>Modelled from the spec: \<open>quat.create\<close> and \<open>quat.identity\<close> of the same library,
  the identity quaternion \<open>[0, 0, 0, 1]\<close>.\<close>

definition quat_create :: Quat where
  "quat_create = (Num 0, Num 0, Num 0, Num 1)"

text \<open>Modelled from the spec: \<open>vec3.transformQuat\<close> of the same library, which rotates
  a vector by a quaternion: the library computes \<open>q * a * q\<^sup>-\<^sup>1\<close> in two steps.\<close>

fun vec3_transformQuat :: "Vec3 \<Rightarrow> Quat \<Rightarrow> Vec3" where
  "vec3_transformQuat (x, y, z) (qx, qy, qz, qw) =
     (let ix = qw * x + qy * z - qz * y;
          iy = qw * y + qz * x - qx * z;
          iz = qw * z + qx * y - qy * x;
          iw = - qx * x - qy * y - qz * z
      in (ix * qw + iw * - qx + iy * - qz - iz * - qy,
          iy * qw + iw * - qy + iz * - qx - ix * - qz,
          iz * qw + iw * - qz + ix * - qy - iy * - qx))"




subsection \<open>JSON values and the vector parser\<close>

text \<open>The values handed to \<open>restoreState\<close>: what \<open>JSON.parse\<close> yields, and
  \<open>undefined\<close> for a missing property. An object is the list of its own properties, each
  key once.\<close>

datatype json =
    JUndefined
  | JNull
  | JBoolean bool
  | JNumber number
  | JString string
  | JArray "json list"
  | JObject "(string \<times> json) list"

datatype error = ParseError | TypeError

text \<open>\<open>obj[key]\<close> for the keys the module reads (none of them is a property of a
  primitive or of a prototype): a \<open>TypeError\<close> on \<open>undefined\<close> and \<open>null\<close>, the own
  property of an object, \<open>undefined\<close> otherwise.\<close>

definition own_property :: "(string \<times> json) list \<Rightarrow> string \<Rightarrow> json" where
  "own_property kvs key = (case map_of kvs key of None \<Rightarrow> JUndefined | Some v \<Rightarrow> v)"

fun get_property :: "json \<Rightarrow> string \<Rightarrow> error + json" where
  "get_property JUndefined key = Inl TypeError"
| "get_property JNull key = Inl TypeError"
| "get_property (JObject kvs) key = Inr (own_property kvs key)"
| "get_property _ key = Inr JUndefined"

text \<open>\<open>obj.hasOwnProperty(key)\<close>: the method is looked up on the value first, so it
  fails on \<open>undefined\<close> and \<open>null\<close>, and on an object whose own property
  \<open>hasOwnProperty\<close> hides the inherited method with a value that cannot be called.\<close>

fun hasOwnProperty :: "json \<Rightarrow> string \<Rightarrow> error + bool" where
  "hasOwnProperty JUndefined key = Inl TypeError"
| "hasOwnProperty JNull key = Inl TypeError"
| "hasOwnProperty (JObject kvs) key =
     (if map_of kvs ''hasOwnProperty'' \<noteq> None then Inl TypeError
      else Inr (map_of kvs key \<noteq> None))"
| "hasOwnProperty _ key = Inr False"

text \<open>Modelled from the spec: \<open>parseFiniteVec\<close> of \<open>neuroglancer/util/json\<close>, which is
  not among the sources, for a target of three components: it "attempts to parse a
  3-element finite numeric vector" and throws on "wrong length, non-finite component,
  wrong type". The target is written only when the whole value parses.\<close>

fun finite_component :: "json \<Rightarrow> number option" where
  "finite_component (JNumber a) = (if isFinite a then Some a else None)"
| "finite_component _ = None"

definition parseFiniteVec :: "json \<Rightarrow> error + Vec3" where
  "parseFiniteVec obj =
     (case obj of
        JArray [e0, e1, e2] \<Rightarrow>
          (case (finite_component e0, finite_component e1, finite_component e2) of
             (Some a, Some b, Some c) \<Rightarrow> Inr (a, b, c)
           | _ \<Rightarrow> Inl ParseError)
      | _ \<Rightarrow> Inl ParseError)"

text \<open>\<open>Array.prototype.slice.call(v)\<close>: the components as a plain array.\<close>

fun array_of_vec3 :: "Vec3 \<Rightarrow> json" where
  "array_of_vec3 (a, b, c) = JArray [JNumber a, JNumber b, JNumber c]"

fun array_of_quat :: "Quat \<Rightarrow> json" where
  "array_of_quat (x, y, z, w) = JArray [JNumber x, JNumber y, JNumber z, JNumber w]"

subsection \<open>Signals\<close>

text \<open>
  Every class has a field \<open>changed = new Signal()\<close>. A signal carries no payload, and
  the observers outside this module are not part of it, so the field is embedded as the
  number of times the signal has been dispatched (\<open>VoxelSize_changed\<close>,
  \<open>SpatialPosition_changed\<close>, ...), and \<open>changed.dispatch()\<close> as its increment. The
  handlers that the module itself subscribes are run by the owner of the subscription
  (see the \<open>observe\<close> functions).
\<close>

subsection \<open>VoxelSize\<close>

record VoxelSize =
  VoxelSize_changed :: nat
  size_vec :: Vec3
  valid :: bool

definition VoxelSize_dispatch :: "VoxelSize \<Rightarrow> VoxelSize" where
  "VoxelSize_dispatch this =
     this\<lparr>VoxelSize_changed := Suc (VoxelSize_changed this)\<rparr>"

definition VoxelSize_new :: "Vec3 option \<Rightarrow> VoxelSize" where
  "VoxelSize_new voxelSize_arg =
     (case voxelSize_arg of
        None \<Rightarrow> \<lparr>VoxelSize_changed = 0, size_vec = vec3_create, valid = False\<rparr>
      | Some v \<Rightarrow> \<lparr>VoxelSize_changed = 0, size_vec = v, valid = True\<rparr>)"

definition VoxelSize_reset :: "VoxelSize \<Rightarrow> VoxelSize" where
  "VoxelSize_reset this = VoxelSize_dispatch (this\<lparr>valid := False\<rparr>)"

definition VoxelSize_setValid :: "VoxelSize \<Rightarrow> VoxelSize" where
  "VoxelSize_setValid this =
     (if \<not> valid this then VoxelSize_dispatch (this\<lparr>valid := True\<rparr>) else this)"

definition VoxelSize_toJSON :: "VoxelSize \<Rightarrow> json" where
  "VoxelSize_toJSON this =
     (if \<not> valid this then JUndefined else array_of_vec3 (size_vec this))"

text \<open>\<open>restoreState\<close> catches whatever the parser throws, so both branches return
  normally.\<close>

definition VoxelSize_restoreState :: "VoxelSize \<Rightarrow> json \<Rightarrow> error + VoxelSize" where
  "VoxelSize_restoreState this obj =
     (case parseFiniteVec obj of
        Inr v \<Rightarrow> Inr (VoxelSize_setValid (this\<lparr>size_vec := v\<rparr>))
      | Inl e \<Rightarrow> Inr (this\<lparr>valid := False\<rparr>))"

definition VoxelSize_voxelFromSpatial :: "VoxelSize \<Rightarrow> Vec3 \<Rightarrow> Vec3" where
  "VoxelSize_voxelFromSpatial this spatial = vec3_divide spatial (size_vec this)"

definition VoxelSize_spatialFromVoxel :: "VoxelSize \<Rightarrow> Vec3 \<Rightarrow> Vec3" where
  "VoxelSize_spatialFromVoxel this voxel = vec3_multiply voxel (size_vec this)"

subsection \<open>SpatialPosition\<close>

text \<open>The private field \<open>voxelCoordinates\<close> is \<open>null\<close> or a vector: an option.\<close>

record SpatialPosition =
  SpatialPosition_changed :: nat
  voxelSize :: VoxelSize
  spatialCoordinates :: Vec3
  spatialCoordinatesValid :: bool
  voxelCoordinates :: "Vec3 option"

definition SpatialPosition_dispatch :: "SpatialPosition \<Rightarrow> SpatialPosition" where
  "SpatialPosition_dispatch this =
     this\<lparr>SpatialPosition_changed := Suc (SpatialPosition_changed this)\<rparr>"

definition SpatialPosition_new :: "VoxelSize option \<Rightarrow> Vec3 option \<Rightarrow> SpatialPosition" where
  "SpatialPosition_new voxelSize_arg spatialCoordinates_arg =
     \<lparr>SpatialPosition_changed = 0,
      voxelSize = (case voxelSize_arg of None \<Rightarrow> VoxelSize_new None | Some vs \<Rightarrow> vs),
      spatialCoordinates =
        (case spatialCoordinates_arg of None \<Rightarrow> vec3_create | Some c \<Rightarrow> c),
      spatialCoordinatesValid = (spatialCoordinates_arg \<noteq> None),
      voxelCoordinates = None\<rparr>"

definition SpatialPosition_valid :: "SpatialPosition \<Rightarrow> bool" where
  "SpatialPosition_valid this = (spatialCoordinatesValid this \<and> valid (voxelSize this))"

definition SpatialPosition_reset :: "SpatialPosition \<Rightarrow> SpatialPosition" where
  "SpatialPosition_reset this =
     SpatialPosition_dispatch (this\<lparr>spatialCoordinatesValid := False, voxelCoordinates := None\<rparr>)"

definition SpatialPosition_markSpatialCoordinatesChanged ::
    "SpatialPosition \<Rightarrow> SpatialPosition" where
  "SpatialPosition_markSpatialCoordinatesChanged this =
     SpatialPosition_dispatch (this\<lparr>spatialCoordinatesValid := True, voxelCoordinates := None\<rparr>)"

definition SpatialPosition_setVoxelCoordinates ::
    "SpatialPosition \<Rightarrow> Vec3 \<Rightarrow> SpatialPosition" where
  "SpatialPosition_setVoxelCoordinates this v =
     SpatialPosition_dispatch
       (if valid (voxelSize this)
        then SpatialPosition_markSpatialCoordinatesChanged
               (this\<lparr>spatialCoordinates := VoxelSize_spatialFromVoxel (voxelSize this) v\<rparr>)
        else this\<lparr>voxelCoordinates := Some v\<rparr>)"

definition SpatialPosition_handleVoxelSizeChanged :: "SpatialPosition \<Rightarrow> SpatialPosition" where
  "SpatialPosition_handleVoxelSizeChanged this =
     (let this =
        (case voxelCoordinates this of
           Some v \<Rightarrow>
             if \<not> spatialCoordinatesValid this
             then this\<lparr>spatialCoordinates := VoxelSize_spatialFromVoxel (voxelSize this) v,
                       spatialCoordinatesValid := True\<rparr>
             else this
         | None \<Rightarrow> this)
      in SpatialPosition_dispatch (this\<lparr>voxelCoordinates := None\<rparr>))"

text \<open>
  The constructor subscribes \<open>handleVoxelSizeChanged\<close> to \<open>voxelSize.changed\<close>. Every
  method of \<open>VoxelSize\<close> dispatches at most once and as its last action, so a call of such
  a method on the voxel size of a position is: the voxel size as the method leaves it,
  then the handler if the method dispatched.
\<close>

definition SpatialPosition_observe_voxelSize ::
    "SpatialPosition \<Rightarrow> VoxelSize \<Rightarrow> SpatialPosition" where
  "SpatialPosition_observe_voxelSize this vs =
     (if VoxelSize_changed vs = VoxelSize_changed (voxelSize this) then this\<lparr>voxelSize := vs\<rparr>
      else SpatialPosition_handleVoxelSizeChanged (this\<lparr>voxelSize := vs\<rparr>))"

text \<open>
  \<open>restoreState\<close>: the two property reads on \<open>obj\<close> and the call of
  \<open>obj.hasOwnProperty\<close> are outside every \<open>try\<close>, so their \<open>TypeError\<close> leaves the
  method; what the parser throws is caught.
\<close>

definition SpatialPosition_restoreState ::
    "SpatialPosition \<Rightarrow> json \<Rightarrow> error + SpatialPosition" where
  "SpatialPosition_restoreState this obj =
     (case get_property obj ''voxelSize'' of
        Inl e \<Rightarrow> Inl e
      | Inr voxelSizeJson \<Rightarrow>
     (case VoxelSize_restoreState (voxelSize this) voxelSizeJson of
        Inl e \<Rightarrow> Inl e
      | Inr vs \<Rightarrow>
     (let this = SpatialPosition_observe_voxelSize this vs;
          this = this\<lparr>spatialCoordinatesValid := False\<rparr>
      in
     (case hasOwnProperty obj ''voxelCoordinates'' of
        Inl e \<Rightarrow> Inl e
      | Inr present \<Rightarrow>
     (let this =
        (if present then
           (case get_property obj ''voxelCoordinates'' of
              Inl e \<Rightarrow> this
            | Inr j \<Rightarrow>
                (case parseFiniteVec j of
                   Inl e \<Rightarrow> this
                 | Inr v \<Rightarrow> SpatialPosition_setVoxelCoordinates this v))
         else this)
      in
     (case get_property obj ''spatialCoordinates'' of
        Inl e \<Rightarrow> Inr this
      | Inr j \<Rightarrow>
          (case parseFiniteVec j of
             Inl e \<Rightarrow> Inr this
           | Inr c \<Rightarrow>
               Inr (SpatialPosition_markSpatialCoordinatesChanged
                      (this\<lparr>spatialCoordinates := c\<rparr>)))))))))"

subsection \<open>OrientationState\<close>

record OrientationState =
  OrientationState_changed :: nat
  orientation :: Quat

definition OrientationState_dispatch :: "OrientationState \<Rightarrow> OrientationState" where
  "OrientationState_dispatch this =
     this\<lparr>OrientationState_changed := Suc (OrientationState_changed this)\<rparr>"

definition OrientationState_new :: "Quat option \<Rightarrow> OrientationState" where
  "OrientationState_new orientation_arg =
     \<lparr>OrientationState_changed = 0,
      orientation = (case orientation_arg of None \<Rightarrow> quat_create | Some q \<Rightarrow> q)\<rparr>"

fun quaternionIsIdentity :: "Quat \<Rightarrow> bool" where
  "quaternionIsIdentity (q0, q1, q2, q3) =
     (strict_eq q0 (Num 0) \<and> strict_eq q1 (Num 0) \<and> strict_eq q2 (Num 0) \<and> strict_eq q3 (Num 1))"

definition OrientationState_toJSON :: "OrientationState \<Rightarrow> json" where
  "OrientationState_toJSON this =
     (if quaternionIsIdentity (orientation this) then JUndefined
      else array_of_quat (orientation this))"

definition OrientationState_reset :: "OrientationState \<Rightarrow> OrientationState" where
  "OrientationState_reset this = OrientationState_dispatch (this\<lparr>orientation := quat_create\<rparr>)"





subsection \<open>Pose\<close>

text \<open>The field \<open>orientation\<close> of a pose holds an \<open>OrientationState\<close>; it is named
  \<open>orientationState\<close> here, \<open>orientation\<close> being the quaternion inside it.\<close>

record Pose =
  Pose_changed :: nat
  position :: SpatialPosition
  orientationState :: OrientationState

definition Pose_dispatch :: "Pose \<Rightarrow> Pose" where
  "Pose_dispatch this =
     this\<lparr>Pose_changed := Suc (Pose_changed this)\<rparr>"

definition Pose_new :: "SpatialPosition option \<Rightarrow> OrientationState option \<Rightarrow> Pose" where
  "Pose_new position_arg orientation_arg =
     \<lparr>Pose_changed = 0,
      position = (case position_arg of None \<Rightarrow> SpatialPosition_new None None | Some p \<Rightarrow> p),
      orientationState =
        (case orientation_arg of None \<Rightarrow> OrientationState_new None | Some q \<Rightarrow> q)\<rparr>"

definition Pose_valid :: "Pose \<Rightarrow> bool" where
  "Pose_valid this = SpatialPosition_valid (position this)"

text \<open>
  The constructor subscribes \<open>this.changed.dispatch\<close> to \<open>position.changed\<close> and to
  \<open>orientation.changed\<close>: the pose dispatches once for every dispatch of either.
\<close>

definition Pose_observe_position :: "Pose \<Rightarrow> SpatialPosition \<Rightarrow> Pose" where
  "Pose_observe_position this p =
     this\<lparr>position := p,
          Pose_changed :=
            Pose_changed this + (SpatialPosition_changed p - SpatialPosition_changed (position this))\<rparr>"

definition Pose_observe_orientation :: "Pose \<Rightarrow> OrientationState \<Rightarrow> Pose" where
  "Pose_observe_orientation this q =
     this\<lparr>orientationState := q,
          Pose_changed :=
            Pose_changed this +
            (OrientationState_changed q - OrientationState_changed (orientationState this))\<rparr>"

definition Pose_translateAbsolute :: "Pose \<Rightarrow> Vec3 \<Rightarrow> Pose" where
  "Pose_translateAbsolute this translation =
     Pose_observe_position this
       (SpatialPosition_dispatch ((position this)
          \<lparr>spatialCoordinates :=
             vec3_add (spatialCoordinates (position this)) translation\<rparr>))"

definition Pose_translateRelative :: "Pose \<Rightarrow> Vec3 \<Rightarrow> Pose" where
  "Pose_translateRelative this translation =
     (if \<not> Pose_valid this then this
      else
        (let temp = vec3_transformQuat translation (orientation (orientationState this))
         in Pose_observe_position this
              (SpatialPosition_dispatch ((position this)
                 \<lparr>spatialCoordinates :=
                    vec3_add (spatialCoordinates (position this)) temp\<rparr>))))"

subsection \<open>NavigationState\<close>

record NavigationState =
  NavigationState_changed :: nat
  pose :: Pose
  zoomFactor :: number

definition NavigationState_dispatch :: "NavigationState \<Rightarrow> NavigationState" where
  "NavigationState_dispatch this =
     this\<lparr>NavigationState_changed := Suc (NavigationState_changed this)\<rparr>"

definition NavigationState_voxelSize :: "NavigationState \<Rightarrow> VoxelSize" where
  "NavigationState_voxelSize this = voxelSize (position (pose this))"

definition NavigationState_setZoomFactorFromVoxelSize ::
    "NavigationState \<Rightarrow> NavigationState" where
  "NavigationState_setZoomFactorFromVoxelSize this =
     (let voxelSize = NavigationState_voxelSize this
      in if valid voxelSize
         then NavigationState_dispatch
                (this\<lparr>zoomFactor :=
                   (case size_vec voxelSize of (a, b, c) \<Rightarrow> Math_min [a, b, c])\<rparr>)
         else this)"

definition NavigationState_handleVoxelSizeChanged :: "NavigationState \<Rightarrow> NavigationState" where
  "NavigationState_handleVoxelSizeChanged this =
     (if isNaN (zoomFactor this) then NavigationState_setZoomFactorFromVoxelSize this
      else this)"

definition NavigationState_new :: "Pose option \<Rightarrow> number option \<Rightarrow> NavigationState" where
  "NavigationState_new pose_arg zoomFactor_arg =
     NavigationState_setZoomFactorFromVoxelSize
       \<lparr>NavigationState_changed = 0,
        pose = (case pose_arg of None \<Rightarrow> Pose_new None None | Some p \<Rightarrow> p),
        zoomFactor = (case zoomFactor_arg of None \<Rightarrow> NaN | Some z \<Rightarrow> z)\<rparr>"

definition NavigationState_resetZoom :: "NavigationState \<Rightarrow> NavigationState" where
  "NavigationState_resetZoom this = NavigationState_dispatch (this\<lparr>zoomFactor := NaN\<rparr>)"

definition NavigationState_zoomBy :: "NavigationState \<Rightarrow> number \<Rightarrow> NavigationState" where
  "NavigationState_zoomBy this factor =
     (if isNaN (zoomFactor this) then this
      else NavigationState_dispatch (this\<lparr>zoomFactor := zoomFactor this * factor\<rparr>))"

text \<open>
  The constructor subscribes \<open>this.changed.dispatch\<close> to \<open>pose.changed\<close> and
  \<open>handleVoxelSizeChanged\<close> to \<open>voxelSize.changed\<close>, after the position subscribed its
  own handler there. A call of a method of \<open>VoxelSize\<close> on the voxel size of a navigation
  state therefore runs the handler of the position, whose dispatch the pose and the
  navigation state pass on, and then the handler of the navigation state.
\<close>

definition NavigationState_observe_pose :: "NavigationState \<Rightarrow> Pose \<Rightarrow> NavigationState" where
  "NavigationState_observe_pose this p =
     this\<lparr>pose := p,
          NavigationState_changed :=
            NavigationState_changed this + (Pose_changed p - Pose_changed (pose this))\<rparr>"

definition NavigationState_observe_voxelSize ::
    "NavigationState \<Rightarrow> VoxelSize \<Rightarrow> NavigationState" where
  "NavigationState_observe_voxelSize this vs =
     (let dispatched = (VoxelSize_changed vs \<noteq> VoxelSize_changed (NavigationState_voxelSize this));
          this = NavigationState_observe_pose this
                   (Pose_observe_position (pose this)
                      (SpatialPosition_observe_voxelSize (position (pose this)) vs))
      in if dispatched then NavigationState_handleVoxelSizeChanged this else this)"

subsection \<open>Axis-aligned orientations\<close>









section \<open>Properties\<close>

lemma isFinite_iff: "isFinite a \<longleftrightarrow> (\<exists>r. a = Num r)"
  by (cases a) simp_all

subsection \<open>The vector parser\<close>

lemma finite_component_Some_iff:
  "finite_component e = Some x \<longleftrightarrow> (\<exists>a. e = JNumber (Num a) \<and> x = Num a)"
proof (cases e)
  case (JNumber n)
  then show ?thesis by (cases n) auto
qed simp_all

lemma finite_component_None_iff:
  "finite_component e = None \<longleftrightarrow> (\<nexists>a. e = JNumber (Num a))"
  using finite_component_Some_iff [of e] by (cases "finite_component e") auto

lemma parseFiniteVec_Inr_iff:
  "parseFiniteVec obj = Inr v \<longleftrightarrow>
     (\<exists>a b c. obj = JArray [JNumber (Num a), JNumber (Num b), JNumber (Num c)] \<and>
        v = (Num a, Num b, Num c))"
  unfolding parseFiniteVec_def
  by (auto simp: finite_component_Some_iff finite_component_None_iff
      split: json.splits list.splits option.splits)

lemma parseFiniteVec_Inl: "parseFiniteVec obj = Inl e \<Longrightarrow> e = ParseError"
  unfolding parseFiniteVec_def
  by (auto split: json.splits list.splits option.splits)

subsection \<open>VoxelSize\<close>

text \<open>
  Claim C9. \<open>VoxelSize.restoreState\<close> never throws. Afterwards the voxel size is valid
  exactly when the input is an array of three finite numbers, and then \<open>size\<close> holds
  these three numbers; every other input (a value that is no array, an array of another
  length, a component that is no finite number) leaves \<open>valid\<close> false.
\<close>

theorem VoxelSize_restoreState_outcome:
  "\<exists>this'. VoxelSize_restoreState this obj = Inr this' \<and>
     valid this' =
       (\<exists>a b c. obj = JArray [JNumber (Num a), JNumber (Num b), JNumber (Num c)]) \<and>
     (\<forall>a b c. obj = JArray [JNumber (Num a), JNumber (Num b), JNumber (Num c)] \<longrightarrow>
        size_vec this' = (Num a, Num b, Num c))"
proof (cases "parseFiniteVec obj")
  case (Inl e)
  then have "\<nexists>a b c. obj = JArray [JNumber (Num a), JNumber (Num b), JNumber (Num c)]"
    by (auto simp: parseFiniteVec_def)
  with Inl show ?thesis
    by (simp add: VoxelSize_restoreState_def)
next
  case (Inr v)
  then obtain a b c where "obj = JArray [JNumber (Num a), JNumber (Num b), JNumber (Num c)]"
    and "v = (Num a, Num b, Num c)"
    using parseFiniteVec_Inr_iff [of obj v] by auto
  with Inr show ?thesis
    by (simp add: VoxelSize_restoreState_def VoxelSize_setValid_def VoxelSize_dispatch_def)
qed

text \<open>The inputs named by the claim: \<open>["a", "b", "c"]\<close>, an array of two numbers, and
  a vector that parses.\<close>

theorem VoxelSize_restoreState_outcome_witness:
  "(\<exists>this'. VoxelSize_restoreState (VoxelSize_new None)
        (JArray [JString ''a'', JString ''b'', JString ''c'']) = Inr this' \<and> \<not> valid this') \<and>
   (\<exists>this'. VoxelSize_restoreState (VoxelSize_new None)
        (JArray [JNumber (Num 1), JNumber (Num 2)]) = Inr this' \<and> \<not> valid this') \<and>
   (\<exists>this'. VoxelSize_restoreState (VoxelSize_new None)
        (JArray [JNumber (Num 2), JNumber (Num 4), JNumber (Num 3)]) = Inr this' \<and>
      size_vec this' = (Num 2, Num 4, Num 3) \<and> valid this')"
  using VoxelSize_restoreState_outcome [of "VoxelSize_new None"
          "JArray [JString ''a'', JString ''b'', JString ''c'']"]
        VoxelSize_restoreState_outcome [of "VoxelSize_new None"
          "JArray [JNumber (Num 1), JNumber (Num 2)]"]
        VoxelSize_restoreState_outcome [of "VoxelSize_new None"
          "JArray [JNumber (Num 2), JNumber (Num 4), JNumber (Num 3)]"]
  by auto

lemma VoxelSize_restoreState_success:
  "VoxelSize_restoreState this (JArray [JNumber (Num a), JNumber (Num b), JNumber (Num c)]) =
     Inr (VoxelSize_setValid (this\<lparr>size_vec := (Num a, Num b, Num c)\<rparr>))"
  by (simp add: VoxelSize_restoreState_def parseFiniteVec_def)

text \<open>
  Claim C8 is about the rounding of 32-bit floating-point multiplication and division
  (a round trip "within floating-point tolerance"), which this embedding leaves out. In
  the exact arithmetic of the model the round trip through a size with finite positive
  components is the identity.
\<close>

lemma number_times_divide: "0 < s \<Longrightarrow> (v * Num s) / Num s = v"
  by (cases v) simp_all

lemma VoxelSize_roundtrip_exact:
  assumes "size_vec this = (Num a, Num b, Num c)" and "0 < a" and "0 < b" and "0 < c"
  shows "VoxelSize_voxelFromSpatial this (VoxelSize_spatialFromVoxel this v) = v"
  using assms
  by (cases v)
     (simp add: VoxelSize_voxelFromSpatial_def VoxelSize_spatialFromVoxel_def
        number_times_divide)

subsection \<open>SpatialPosition\<close>

lemma SpatialPosition_handleVoxelSizeChanged_voxelSize:
  "voxelSize (SpatialPosition_handleVoxelSizeChanged this) = voxelSize this"
  by (simp add: SpatialPosition_handleVoxelSizeChanged_def SpatialPosition_dispatch_def
      Let_def split: option.splits)

text \<open>
  Claim C3. While the voxel size is invalid, \<open>setVoxelCoordinates(v)\<close> stores \<open>v\<close> as the
  pending voxel coordinate, leaves the spatial coordinates alone and dispatches. When the
  voxel size then becomes valid (its size set to \<open>s\<close>, then \<open>setValid()\<close>, which is also
  what a successful \<open>restoreState\<close> does), the handler of the position clears the pending
  coordinate and dispatches; the spatial coordinates are valid afterwards, and they are
  \<open>v\<close> times \<open>s\<close> unless they were valid before, in which case they are kept.
\<close>

theorem SpatialPosition_pending_voxel_resolved:
  assumes "\<not> valid (voxelSize this)"
  shows
   "voxelCoordinates (SpatialPosition_setVoxelCoordinates this v) = Some v \<and>
    spatialCoordinates (SpatialPosition_setVoxelCoordinates this v) = spatialCoordinates this \<and>
    spatialCoordinatesValid (SpatialPosition_setVoxelCoordinates this v) =
      spatialCoordinatesValid this \<and>
    voxelSize (SpatialPosition_setVoxelCoordinates this v) = voxelSize this \<and>
    SpatialPosition_changed (SpatialPosition_setVoxelCoordinates this v) =
      Suc (SpatialPosition_changed this) \<and>
    (let after = SpatialPosition_observe_voxelSize (SpatialPosition_setVoxelCoordinates this v)
                   (VoxelSize_setValid ((voxelSize this)\<lparr>size_vec := s\<rparr>))
     in valid (voxelSize after) \<and> size_vec (voxelSize after) = s \<and>
        voxelCoordinates after = None \<and>
        spatialCoordinatesValid after \<and>
        spatialCoordinates after =
          (if spatialCoordinatesValid this then spatialCoordinates this
           else vec3_multiply v s) \<and>
        SpatialPosition_changed after = Suc (Suc (SpatialPosition_changed this))) \<and>
    VoxelSize_restoreState (voxelSize this)
        (JArray [JNumber (Num a), JNumber (Num b), JNumber (Num c)]) =
      Inr (VoxelSize_setValid ((voxelSize this)\<lparr>size_vec := (Num a, Num b, Num c)\<rparr>))"
  using assms
  by (simp add: SpatialPosition_setVoxelCoordinates_def SpatialPosition_dispatch_def
      SpatialPosition_observe_voxelSize_def VoxelSize_setValid_def VoxelSize_dispatch_def
      SpatialPosition_handleVoxelSizeChanged_def VoxelSize_spatialFromVoxel_def
      VoxelSize_restoreState_success Let_def)

text \<open>The example of the claim: \<open>setVoxelCoordinates([1, 2, 3])\<close> on a fresh position,
  then \<open>voxelSize.restoreState([1, 1, 1])\<close>, gives the spatial coordinates
  \<open>[1, 2, 3]\<close>.\<close>

theorem SpatialPosition_pending_voxel_resolved_witness:
  "\<not> valid (voxelSize (SpatialPosition_new None None)) \<and>
   voxelCoordinates
     (SpatialPosition_setVoxelCoordinates (SpatialPosition_new None None) (Num 1, Num 2, Num 3)) =
     Some (Num 1, Num 2, Num 3) \<and>
   (case VoxelSize_restoreState (voxelSize (SpatialPosition_new None None))
           (JArray [JNumber (Num 1), JNumber (Num 1), JNumber (Num 1)]) of
      Inl e \<Rightarrow> False
    | Inr vs \<Rightarrow>
        spatialCoordinates
          (SpatialPosition_observe_voxelSize
             (SpatialPosition_setVoxelCoordinates (SpatialPosition_new None None)
                (Num 1, Num 2, Num 3)) vs) = (Num 1, Num 2, Num 3) \<and>
        spatialCoordinatesValid
          (SpatialPosition_observe_voxelSize
             (SpatialPosition_setVoxelCoordinates (SpatialPosition_new None None)
                (Num 1, Num 2, Num 3)) vs))"
  using SpatialPosition_pending_voxel_resolved
          [of "SpatialPosition_new None None" "(Num 1, Num 2, Num 3)" "(Num 1, Num 1, Num 1)" 1 1 1]
  by (simp add: SpatialPosition_new_def VoxelSize_new_def Let_def)

lemma VoxelSize_restoreState_Inr: "\<exists>vs. VoxelSize_restoreState this obj = Inr vs"
  by (simp add: VoxelSize_restoreState_def split: sum.splits)

lemma parseFiniteVec_JUndefined: "parseFiniteVec JUndefined = Inl ParseError"
  by (simp add: parseFiniteVec_def)

lemma SpatialPosition_observe_voxelSize_voxelSize:
  "voxelSize (SpatialPosition_observe_voxelSize this vs) = vs"
  by (simp add: SpatialPosition_observe_voxelSize_def
      SpatialPosition_handleVoxelSizeChanged_voxelSize)

text \<open>
  Claim C4, as stated: \<open>restoreState\<close> restores from \<open>voxelCoordinates\<close> and falls back
  to \<open>spatialCoordinates\<close>. The second \<open>try\<close> block is not a fallback: it runs after the
  first whatever its outcome. With a voxel size, voxel coordinates \<open>[1, 2, 3]\<close> and
  spatial coordinates \<open>[4, 5, 6]\<close> that all parse, the position ends at the spatial
  coordinates \<open>[4, 5, 6]\<close>, not at the voxel coordinates.
\<close>

theorem SpatialPosition_restoreState_spatial_overrides:
  "parseFiniteVec (JArray [JNumber (Num 1), JNumber (Num 2), JNumber (Num 3)]) =
     Inr (Num 1, Num 2, Num 3) \<and>
   (case SpatialPosition_restoreState (SpatialPosition_new None None)
           (JObject
              [(''voxelSize'', JArray [JNumber (Num 1), JNumber (Num 1), JNumber (Num 1)]),
               (''voxelCoordinates'',
                  JArray [JNumber (Num 1), JNumber (Num 2), JNumber (Num 3)]),
               (''spatialCoordinates'',
                  JArray [JNumber (Num 4), JNumber (Num 5), JNumber (Num 6)])]) of
      Inl e \<Rightarrow> False
    | Inr this' \<Rightarrow>
        spatialCoordinates this' = (Num 4, Num 5, Num 6) \<and>
        spatialCoordinates this' \<noteq> vec3_multiply (Num 1, Num 2, Num 3) (Num 1, Num 1, Num 1))"
  by (simp add: SpatialPosition_restoreState_def SpatialPosition_new_def VoxelSize_new_def
      own_property_def VoxelSize_restoreState_def parseFiniteVec_def VoxelSize_setValid_def
      VoxelSize_dispatch_def SpatialPosition_observe_voxelSize_def
      SpatialPosition_handleVoxelSizeChanged_def SpatialPosition_dispatch_def
      SpatialPosition_setVoxelCoordinates_def SpatialPosition_markSpatialCoordinatesChanged_def
      VoxelSize_spatialFromVoxel_def Let_def)

text \<open>The property reads on \<open>obj\<close> are outside the \<open>try\<close> blocks: on \<open>undefined\<close>
  (a pose restored from an object without \<open>position\<close>) the method throws.\<close>

lemma SpatialPosition_restoreState_undefined:
  "SpatialPosition_restoreState this JUndefined = Inl TypeError"
  by (simp add: SpatialPosition_restoreState_def)

text \<open>
  Claim C4, amended: on an object (whose method \<open>hasOwnProperty\<close> is not hidden)
  \<open>restoreState\<close> never throws. It first restores the embedded voxel size from
  \<open>voxelSize\<close>, then the position from \<open>voxelCoordinates\<close> and after that, whatever the
  outcome, from \<open>spatialCoordinates\<close>. If \<open>spatialCoordinates\<close> parses, it gives the
  spatial coordinates, also when \<open>voxelCoordinates\<close> parsed. Otherwise, if
  \<open>voxelCoordinates\<close> parses, it is converted with the voxel size when that is valid, and
  kept pending when it is not. If neither parses, the spatial coordinates are invalid.
\<close>

theorem SpatialPosition_restoreState_outcome:
  assumes "map_of kvs ''hasOwnProperty'' = None"
  shows "\<exists>this'. SpatialPosition_restoreState this (JObject kvs) = Inr this' \<and>
      VoxelSize_restoreState (voxelSize this) (own_property kvs ''voxelSize'') =
        Inr (voxelSize this') \<and>
      (case parseFiniteVec (own_property kvs ''spatialCoordinates'') of
         Inr c \<Rightarrow>
           spatialCoordinates this' = c \<and> spatialCoordinatesValid this' \<and>
           voxelCoordinates this' = None
       | Inl e \<Rightarrow>
           (case parseFiniteVec (own_property kvs ''voxelCoordinates'') of
              Inr v \<Rightarrow>
                (if valid (voxelSize this')
                 then spatialCoordinates this' = vec3_multiply v (size_vec (voxelSize this')) \<and>
                      spatialCoordinatesValid this' \<and> voxelCoordinates this' = None
                 else voxelCoordinates this' = Some v \<and> \<not> spatialCoordinatesValid this')
            | Inl e \<Rightarrow> \<not> spatialCoordinatesValid this'))"
proof -
  obtain vs where
    vs: "VoxelSize_restoreState (voxelSize this) (own_property kvs ''voxelSize'') = Inr vs"
    using VoxelSize_restoreState_Inr by blast
  have absent: "map_of kvs ''voxelCoordinates'' = None \<Longrightarrow>
      parseFiniteVec (own_property kvs ''voxelCoordinates'') = Inl ParseError"
    by (simp add: own_property_def parseFiniteVec_JUndefined)
  show ?thesis
    using assms vs absent
    by (auto simp: SpatialPosition_restoreState_def Let_def
        SpatialPosition_observe_voxelSize_voxelSize
        SpatialPosition_setVoxelCoordinates_def SpatialPosition_markSpatialCoordinatesChanged_def
        SpatialPosition_dispatch_def VoxelSize_spatialFromVoxel_def
        split: sum.splits dest: parseFiniteVec_Inl)
qed

theorem SpatialPosition_restoreState_outcome_witness:
  "map_of [(''voxelSize'', JArray [JNumber (Num 1), JNumber (Num 1), JNumber (Num 1)]),
           (''voxelCoordinates'', JArray [JNumber (Num 1), JNumber (Num 2), JNumber (Num 3)])]
      ''hasOwnProperty'' = None \<and>
   (\<exists>this'. SpatialPosition_restoreState (SpatialPosition_new None None)
        (JObject
           [(''voxelSize'', JArray [JNumber (Num 1), JNumber (Num 1), JNumber (Num 1)]),
            (''voxelCoordinates'',
               JArray [JNumber (Num 1), JNumber (Num 2), JNumber (Num 3)])]) = Inr this' \<and>
      valid (voxelSize this') \<and>
      spatialCoordinates this' = (Num 1, Num 2, Num 3) \<and>
      spatialCoordinatesValid this' \<and> voxelCoordinates this' = None)"
proof -
  let ?kvs = "[(''voxelSize'', JArray [JNumber (Num 1), JNumber (Num 1), JNumber (Num 1)]),
           (''voxelCoordinates'', JArray [JNumber (Num 1), JNumber (Num 2), JNumber (Num 3)])]"
  have h: "map_of ?kvs ''hasOwnProperty'' = None" by simp
  from SpatialPosition_restoreState_outcome [OF h, of "SpatialPosition_new None None"]
  obtain this' where
    r: "SpatialPosition_restoreState (SpatialPosition_new None None) (JObject ?kvs) = Inr this'"
    and vs: "VoxelSize_restoreState (voxelSize (SpatialPosition_new None None))
               (own_property ?kvs ''voxelSize'') = Inr (voxelSize this')"
    and c: "(case parseFiniteVec (own_property ?kvs ''spatialCoordinates'') of
         Inr c \<Rightarrow>
           spatialCoordinates this' = c \<and> spatialCoordinatesValid this' \<and>
           voxelCoordinates this' = None
       | Inl e \<Rightarrow>
           (case parseFiniteVec (own_property ?kvs ''voxelCoordinates'') of
              Inr v \<Rightarrow>
                (if valid (voxelSize this')
                 then spatialCoordinates this' = vec3_multiply v (size_vec (voxelSize this')) \<and>
                      spatialCoordinatesValid this' \<and> voxelCoordinates this' = None
                 else voxelCoordinates this' = Some v \<and> \<not> spatialCoordinatesValid this')
            | Inl e \<Rightarrow> \<not> spatialCoordinatesValid this'))"
    by blast
  from vs have v: "voxelSize this' =
      \<lparr>VoxelSize_changed = 1, size_vec = (Num 1, Num 1, Num 1), valid = True\<rparr>"
    by (simp add: own_property_def VoxelSize_restoreState_def parseFiniteVec_def
        VoxelSize_setValid_def VoxelSize_dispatch_def SpatialPosition_new_def VoxelSize_new_def)
  from c v have "valid (voxelSize this') \<and>
      spatialCoordinates this' = (Num 1, Num 2, Num 3) \<and>
      spatialCoordinatesValid this' \<and> voxelCoordinates this' = None"
    by (simp add: own_property_def parseFiniteVec_def)
  with r h show ?thesis by blast
qed

subsection \<open>OrientationState\<close>

text \<open>
  Claim C7. \<open>OrientationState.toJSON\<close> returns \<open>undefined\<close> if and only if the
  quaternion is \<open>[0, 0, 0, 1]\<close>, compared component by component with \<open>===\<close>; for
  every other quaternion it returns the array of the four components.
\<close>

theorem OrientationState_toJSON_absent_iff:
  "(OrientationState_toJSON this = JUndefined) =
     (orientation this = (Num 0, Num 0, Num 0, Num 1)) \<and>
   (orientation this \<noteq> (Num 0, Num 0, Num 0, Num 1) \<longrightarrow>
     OrientationState_toJSON this = array_of_quat (orientation this))"
  by (cases "orientation this")
     (auto simp: OrientationState_toJSON_def strict_eq_def)

theorem OrientationState_toJSON_absent_iff_witness:
  "OrientationState_toJSON (OrientationState_new None) = JUndefined \<and>
   OrientationState_toJSON (OrientationState_new (Some (Num 0, Num 0, Num 0, Num (- 1)))) =
     JArray [JNumber (Num 0), JNumber (Num 0), JNumber (Num 0), JNumber (Num (- 1))]"
  using OrientationState_toJSON_absent_iff [of "OrientationState_new None"]
    OrientationState_toJSON_absent_iff
      [of "OrientationState_new (Some (Num 0, Num 0, Num 0, Num (- 1)))"]
  by (simp add: OrientationState_new_def quat_create_def)









































subsection \<open>Pose\<close>

text \<open>
  Claim C10. \<open>Pose.translateAbsolute\<close> adds the translation to the stored spatial
  coordinates and dispatches \<open>position.changed\<close> (which the pose passes on) whether the
  pose is valid or not, and changes nothing else: the validity flag of the spatial
  coordinates, the pending voxel coordinate, the voxel size and the orientation stay as
  they are, so the validity of the pose is unchanged. \<open>translateRelative\<close> on an invalid
  pose does nothing.
\<close>

theorem Pose_translateAbsolute_frame:
  "spatialCoordinates (position (Pose_translateAbsolute this t)) =
     vec3_add (spatialCoordinates (position this)) t \<and>
   SpatialPosition_changed (position (Pose_translateAbsolute this t)) =
     Suc (SpatialPosition_changed (position this)) \<and>
   Pose_changed (Pose_translateAbsolute this t) = Suc (Pose_changed this) \<and>
   spatialCoordinatesValid (position (Pose_translateAbsolute this t)) =
     spatialCoordinatesValid (position this) \<and>
   voxelCoordinates (position (Pose_translateAbsolute this t)) =
     voxelCoordinates (position this) \<and>
   voxelSize (position (Pose_translateAbsolute this t)) = voxelSize (position this) \<and>
   orientationState (Pose_translateAbsolute this t) = orientationState this \<and>
   Pose_valid (Pose_translateAbsolute this t) = Pose_valid this \<and>
   (\<not> Pose_valid this \<longrightarrow> Pose_translateRelative this t = this)"
  by (simp add: Pose_translateAbsolute_def Pose_translateRelative_def Pose_observe_position_def
      SpatialPosition_dispatch_def Pose_valid_def SpatialPosition_valid_def)

theorem Pose_translateAbsolute_frame_witness:
  "\<not> Pose_valid (Pose_new None None) \<and>
   spatialCoordinates
     (position (Pose_translateAbsolute (Pose_new None None) (Num 1, Num 2, Num 3))) =
     (Num 1, Num 2, Num 3) \<and>
   \<not> Pose_valid (Pose_translateAbsolute (Pose_new None None) (Num 1, Num 2, Num 3)) \<and>
   Pose_changed (Pose_translateAbsolute (Pose_new None None) (Num 1, Num 2, Num 3)) = 1 \<and>
   Pose_translateRelative (Pose_new None None) (Num 1, Num 2, Num 3) = Pose_new None None"
  using Pose_translateAbsolute_frame [of "Pose_new None None" "(Num 1, Num 2, Num 3)"]
  by (simp add: Pose_new_def SpatialPosition_new_def VoxelSize_new_def Pose_valid_def
      SpatialPosition_valid_def vec3_create_def)

lemma vec3_transformQuat_identity:
  "vec3_transformQuat (Num x, Num y, Num z) quat_create = (Num x, Num y, Num z)"
  by (simp add: quat_create_def minus_number_def Let_def)

text \<open>
  Claim C5, as stated: with the identity orientation, \<open>translateRelative\<close> and
  \<open>translateAbsolute\<close> give the same spatial coordinates for every pose and every
  translation. It fails on an invalid pose: a fresh pose has the identity orientation
  and no valid position, \<open>translateRelative\<close> returns at its guard and
  \<open>translateAbsolute\<close> adds the translation.
\<close>

theorem Pose_translateRelative_invalid_differs:
  "spatialCoordinates
     (position (Pose_translateRelative (Pose_new None None) (Num 1, Num 0, Num 0))) \<noteq>
   spatialCoordinates
     (position (Pose_translateAbsolute (Pose_new None None) (Num 1, Num 0, Num 0))) \<and>
   orientation (orientationState (Pose_new None None)) = quat_create"
  by (simp add: Pose_translateRelative_def Pose_translateAbsolute_def Pose_new_def
      SpatialPosition_new_def VoxelSize_new_def OrientationState_new_def Pose_valid_def
      SpatialPosition_valid_def Pose_observe_position_def SpatialPosition_dispatch_def
      vec3_create_def)

text \<open>A translation with a component that is not finite separates the two methods as
  well, on a valid pose: the rotation multiplies that component by the zeros of the
  identity quaternion, which gives NaN in the other components.\<close>

lemma Pose_translateRelative_nonfinite_differs:
  "spatialCoordinates (position (Pose_translateRelative
     (Pose_new (Some (SpatialPosition_new (Some (VoxelSize_new (Some (Num 1, Num 1, Num 1))))
                        (Some (Num 0, Num 0, Num 0)))) None)
     (NaN, Num 0, Num 0))) = (NaN, NaN, NaN) \<and>
   spatialCoordinates (position (Pose_translateAbsolute
     (Pose_new (Some (SpatialPosition_new (Some (VoxelSize_new (Some (Num 1, Num 1, Num 1))))
                        (Some (Num 0, Num 0, Num 0)))) None)
     (NaN, Num 0, Num 0))) = (NaN, Num 0, Num 0)"
  by (simp add: Pose_translateRelative_def Pose_translateAbsolute_def Pose_new_def
      SpatialPosition_new_def VoxelSize_new_def OrientationState_new_def Pose_valid_def
      SpatialPosition_valid_def Pose_observe_position_def SpatialPosition_dispatch_def
      quat_create_def minus_number_def Let_def)

text \<open>
  Claim C5, amended: on a valid pose whose orientation is the identity quaternion, and
  for a translation with finite components, \<open>translateRelative\<close> and \<open>translateAbsolute\<close>
  leave the pose in the same state (the same spatial coordinates, the same dispatches).
\<close>

theorem Pose_translateRelative_identity:
  assumes "Pose_valid this"
    and "orientation (orientationState this) = quat_create"
    and "isFinite dx" and "isFinite dy" and "isFinite dz"
  shows "Pose_translateRelative this (dx, dy, dz) = Pose_translateAbsolute this (dx, dy, dz)"
proof -
  from assms(3-5) obtain x y z where "dx = Num x" "dy = Num y" "dz = Num z"
    by (auto simp: isFinite_iff)
  with assms(1,2) show ?thesis
    by (simp add: Pose_translateRelative_def Pose_translateAbsolute_def
        vec3_transformQuat_identity Let_def)
qed

theorem Pose_translateRelative_identity_witness:
  "Pose_translateRelative
     (Pose_new (Some (SpatialPosition_new (Some (VoxelSize_new (Some (Num 1, Num 1, Num 1))))
                        (Some (Num 0, Num 0, Num 0)))) None)
     (Num 1, Num 2, Num 3) =
   Pose_translateAbsolute
     (Pose_new (Some (SpatialPosition_new (Some (VoxelSize_new (Some (Num 1, Num 1, Num 1))))
                        (Some (Num 0, Num 0, Num 0)))) None)
     (Num 1, Num 2, Num 3) \<and>
   spatialCoordinates (position (Pose_translateRelative
     (Pose_new (Some (SpatialPosition_new (Some (VoxelSize_new (Some (Num 1, Num 1, Num 1))))
                        (Some (Num 0, Num 0, Num 0)))) None)
     (Num 1, Num 2, Num 3))) = (Num 1, Num 2, Num 3)"
  using Pose_translateRelative_identity
    [of "Pose_new (Some (SpatialPosition_new (Some (VoxelSize_new (Some (Num 1, Num 1, Num 1))))
                        (Some (Num 0, Num 0, Num 0)))) None" "Num 1" "Num 2" "Num 3"]
  by (simp add: Pose_new_def SpatialPosition_new_def VoxelSize_new_def OrientationState_new_def
      Pose_valid_def SpatialPosition_valid_def Pose_translateAbsolute_def
      Pose_observe_position_def SpatialPosition_dispatch_def)

subsection \<open>NavigationState\<close>

lemma Math_min_finite: "Math_min [Num x, Num y, Num z] = Num (min x (min y z))"
  by (simp add: Math_min_def min2_def min_def)

lemma NavigationState_new_simps:
  "pose (NavigationState_new pose_arg z) =
     (case pose_arg of None \<Rightarrow> Pose_new None None | Some p \<Rightarrow> p)"
  "NavigationState_voxelSize (NavigationState_new pose_arg z) =
     voxelSize (position (case pose_arg of None \<Rightarrow> Pose_new None None | Some p \<Rightarrow> p))"
  by (simp_all add: NavigationState_new_def NavigationState_setZoomFactorFromVoxelSize_def
      NavigationState_voxelSize_def NavigationState_dispatch_def Let_def)

lemma NavigationState_zoom_after_valid:
  assumes "isNaN (zoomFactor this)" and "\<not> valid (NavigationState_voxelSize this)"
  shows "zoomFactor (NavigationState_observe_voxelSize this
           (VoxelSize_setValid ((NavigationState_voxelSize this)\<lparr>size_vec := (a, b, c)\<rparr>))) =
         Math_min [a, b, c]"
  using assms
  by (simp add: NavigationState_observe_voxelSize_def NavigationState_observe_pose_def
      Pose_observe_position_def SpatialPosition_observe_voxelSize_def VoxelSize_setValid_def
      VoxelSize_dispatch_def NavigationState_voxelSize_def
      NavigationState_handleVoxelSizeChanged_def NavigationState_setZoomFactorFromVoxelSize_def
      NavigationState_dispatch_def Let_def SpatialPosition_handleVoxelSizeChanged_voxelSize)

text \<open>
  Claim C1. A navigation state constructed without a zoom factor, on a voxel size that is
  not valid, has the zoom factor NaN. When the voxel size then becomes valid with the
  size \<open>[a, b, c]\<close>, the handler sets the zoom factor to \<open>Math.min(a, b, c)\<close>, which for
  finite components is the least of the three (2 for \<open>[2, 4, 3]\<close>). A successful
  \<open>restoreState\<close> of the voxel size is such a transition.
\<close>

theorem NavigationState_zoom_derived:
  assumes "\<not> valid (NavigationState_voxelSize (NavigationState_new pose_arg None))"
  shows "zoomFactor (NavigationState_new pose_arg None) = NaN \<and>
    zoomFactor
      (NavigationState_observe_voxelSize (NavigationState_new pose_arg None)
         (VoxelSize_setValid
            ((NavigationState_voxelSize (NavigationState_new pose_arg None))
               \<lparr>size_vec := (a, b, c)\<rparr>))) = Math_min [a, b, c] \<and>
    Math_min [Num x, Num y, Num z] = Num (min x (min y z)) \<and>
    VoxelSize_restoreState (NavigationState_voxelSize (NavigationState_new pose_arg None))
        (JArray [JNumber (Num x), JNumber (Num y), JNumber (Num z)]) =
      Inr (VoxelSize_setValid
             ((NavigationState_voxelSize (NavigationState_new pose_arg None))
                \<lparr>size_vec := (Num x, Num y, Num z)\<rparr>))"
proof -
  have nan: "zoomFactor (NavigationState_new pose_arg None) = NaN"
    using assms unfolding NavigationState_new_simps
    by (simp add: NavigationState_new_def NavigationState_setZoomFactorFromVoxelSize_def
        NavigationState_voxelSize_def Let_def)
  then have "isNaN (zoomFactor (NavigationState_new pose_arg None))" by simp
  from NavigationState_zoom_after_valid [OF this assms] nan Math_min_finite
    VoxelSize_restoreState_success
  show ?thesis by simp
qed

theorem NavigationState_zoom_derived_witness:
  "\<not> valid (NavigationState_voxelSize (NavigationState_new None None)) \<and>
   zoomFactor (NavigationState_new None None) = NaN \<and>
   zoomFactor
     (NavigationState_observe_voxelSize (NavigationState_new None None)
        (VoxelSize_setValid
           ((NavigationState_voxelSize (NavigationState_new None None))
              \<lparr>size_vec := (Num 2, Num 4, Num 3)\<rparr>))) = Num 2"
  using NavigationState_zoom_derived [of None "Num 2" "Num 4" "Num 3" 2 4 3]
  by (simp add: NavigationState_new_simps Pose_new_def SpatialPosition_new_def
      VoxelSize_new_def)

text \<open>On a change of the voxel size the handler of the navigation state is guarded: a
  zoom factor that is not NaN stays as it is.\<close>

lemma NavigationState_zoom_kept:
  assumes "\<not> isNaN (zoomFactor this)"
  shows "zoomFactor (NavigationState_observe_voxelSize this vs) = zoomFactor this"
  using assms
  by (simp add: NavigationState_observe_voxelSize_def NavigationState_observe_pose_def
      NavigationState_handleVoxelSizeChanged_def Let_def)

text \<open>At construction a zoom factor that is given is kept as long as the voxel size is
  not valid.\<close>

lemma NavigationState_new_zoom_given:
  assumes "\<not> valid (NavigationState_voxelSize (NavigationState_new pose_arg (Some z)))"
  shows "zoomFactor (NavigationState_new pose_arg (Some z)) = z"
  using assms unfolding NavigationState_new_simps
  by (simp add: NavigationState_new_def NavigationState_setZoomFactorFromVoxelSize_def
      NavigationState_voxelSize_def Let_def)

text \<open>
  Claim C2 says that the zoom factor derived from the voxel size never replaces one that
  is already set, at construction as on every later change of the voxel size. The
  constructor calls \<open>setZoomFactorFromVoxelSize\<close> directly, without the NaN test of
  \<open>handleVoxelSizeChanged\<close>: on a pose whose voxel size \<open>[2, 4, 3]\<close> is valid, the zoom
  factor 5 given to the constructor is replaced by 2.
\<close>

theorem NavigationState_new_overwrites_zoom:
  "zoomFactor
     (NavigationState_new
        (Some (Pose_new
           (Some (SpatialPosition_new (Some (VoxelSize_new (Some (Num 2, Num 4, Num 3)))) None))
           None))
        (Some (Num 5))) = Num 2"
  by (simp add: NavigationState_new_def NavigationState_setZoomFactorFromVoxelSize_def
      NavigationState_voxelSize_def Pose_new_def SpatialPosition_new_def VoxelSize_new_def
      NavigationState_dispatch_def Math_min_def min2_def Let_def)

end
